theory Spec2Isabelle
  imports Main "HOL-Library.Word"
begin

section \<open>The drain scheduling engine of draino (internal/kubernetes/drainSchedule.go)\<close>

text \<open>
  A shallow embedding of \<^verbatim>\<open>DrainSchedules\<close>: the map of per-node schedules, the stagger
  computation \<^verbatim>\<open>WhenNextSchedule\<close>, the four operations of the \<^verbatim>\<open>DrainScheduler\<close>
  interface and the function that a schedule's timer runs when it fires.

  Every method body that runs between \<^verbatim>\<open>d.Lock()\<close> and \<^verbatim>\<open>d.Unlock()\<close> is one
  state transformer. The clock reading \<^verbatim>\<open>time.Now()\<close> and the answers of the external
  \<^verbatim>\<open>Drainer\<close> are inputs of the operation that consults them.
\<close>

subsection \<open>Time\<close>

text \<open>
  A \<^verbatim>\<open>time.Time\<close> is an instant, counted in nanoseconds from the zero time
  (January 1, year 1, 00:00:00 UTC), so that \<^verbatim>\<open>IsZero\<close> is equality with \<open>0\<close>. The
  instants are unbounded integers: Go keeps 64 bits of seconds, a range of
  292 billion years that no run of the engine leaves. The wall-clock and the monotonic
  readings that a Go time carries are taken to agree: an instant is a point on one time
  line. A \<^verbatim>\<open>time.Duration\<close> is an \<^verbatim>\<open>int64\<close> of nanoseconds, read as a signed
  number when it is added to an instant.
\<close>

type_synonym time = int
type_synonym duration = "64 word"

definition zeroTime :: time where
  "zeroTime = 0"

definition IsZero :: "time \<Rightarrow> bool" where
  "IsZero t \<longleftrightarrow> t = zeroTime"

definition Before :: "time \<Rightarrow> time \<Rightarrow> bool" where
  "Before t u \<longleftrightarrow> t < u"

definition Add :: "time \<Rightarrow> duration \<Rightarrow> time" where
  "Add t d = t + sint d"

definition Millisecond :: duration where
  "Millisecond = 1000000"

definition Second :: duration where
  "Second = 1000000000"

definition SetConditionTimeout :: duration where
  "SetConditionTimeout = 10 * Second"

definition SetConditionRetryPeriod :: duration where
  "SetConditionRetryPeriod = 50 * Millisecond"

subsection \<open>Errors\<close>

text \<open>
  Go's \<^verbatim>\<open>error\<close> is an interface; a value of it is \<^verbatim>\<open>nil\<close> (\<open>None\<close>) or an error of
  some dynamic type. The engine tells one type apart, \<^verbatim>\<open>*AlreadyScheduledError\<close>; every
  other error comes from the drainer and is kept with its message.
\<close>

datatype error = AlreadyScheduledError string | DrainerError string

definition NewAlreadyScheduledError :: error where
  "NewAlreadyScheduledError = AlreadyScheduledError ''drain schedule is already planned for that node''"

fun IsAlreadyScheduledError :: "error option \<Rightarrow> bool" where
  "IsAlreadyScheduledError (Some (AlreadyScheduledError m)) = True"
| "IsAlreadyScheduledError (Some (DrainerError m)) = False"
| "IsAlreadyScheduledError None = False"

fun errorText :: "error \<Rightarrow> string" where
  "errorText (AlreadyScheduledError m) = m"
| "errorText (DrainerError m) = m"

subsection \<open>The external collaborators\<close>

text \<open>
  The \<^verbatim>\<open>Drainer\<close> interface. Its answers are not determined by the engine: \<open>Drain\<close>
  gives the answer to \<^verbatim>\<open>Drain(node)\<close>, and \<open>MarkDrain node when finish failed k\<close> the
  answer to the \<open>k\<close>-th call of \<^verbatim>\<open>MarkDrain(node, when, finish, failed)\<close> within one
  retried announcement. A node is identified by its name, the only attribute the
  engine reads (\<^verbatim>\<open>node.GetName()\<close>).
\<close>

record drainer =
  Drain :: "string \<Rightarrow> error option"
  MarkDrain :: "string \<Rightarrow> time \<Rightarrow> time \<Rightarrow> bool \<Rightarrow> nat \<Rightarrow> error option"

datatype level = Info | Warn | Error

datatype eventReason = eventReasonDrainStarting | eventReasonDrainFailed | eventReasonDrainSucceeded

datatype tagResult = tagResultFailed | tagResultSucceeded

text \<open>
  What the engine hands to the logger, the event recorder and the metrics: a log line is
  its level and message (the structured fields are left out), an event is the node it is
  about, its reason and its message (all events of this file are warnings), a measurement
  is one drained node with its result tag.
\<close>

type_synonym logLine = "level \<times> string"
type_synonym event = "string \<times> eventReason \<times> string"
type_synonym measurement = "string \<times> tagResult"

text \<open>
  Modelled from the spec: \<^verbatim>\<open>RetryWithTimeout\<close>, the bounded retry primitive, is called by
  this file and defined elsewhere in the repository. The spec: ``given an operation that
  may fail, a retry interval, and a total timeout budget, repeatedly invoke the operation
  at the fixed interval until it succeeds or the timeout elapses; returns the last observed
  error on timeout, nil on success''. The operation is given by the answers of its
  successive invocations; it is invoked once at the start and once more after each full
  interval that fits into the timeout. Every call in this file passes
  \<^verbatim>\<open>SetConditionRetryPeriod\<close> and \<^verbatim>\<open>SetConditionTimeout\<close>, 50 milliseconds and 10 seconds,
  which makes at most 201 invocations. The theorems below depend on the result of the
  retried announcement only, not on the number of invocations.
\<close>

fun retryLoop :: "(nat \<Rightarrow> error option) \<Rightarrow> nat \<Rightarrow> nat \<Rightarrow> error \<Rightarrow> error option" where
  "retryLoop f k 0 e0 = Some e0"
| "retryLoop f k (Suc n) e0 =
     (case f k of None \<Rightarrow> None | Some e \<Rightarrow> retryLoop f (Suc k) n e)"

definition RetryWithTimeout :: "(nat \<Rightarrow> error option) \<Rightarrow> duration \<Rightarrow> duration \<Rightarrow> error option" where
  "RetryWithTimeout f retryPeriod timeout =
     (case f 0 of
        None \<Rightarrow> None
      | Some e \<Rightarrow> retryLoop f 1 (nat (sint timeout div sint retryPeriod)) e)"

subsection \<open>Schedules and the engine state\<close>

text \<open>
  A \<^verbatim>\<open>*time.Timer\<close> made by \<^verbatim>\<open>time.AfterFunc\<close> is armed until it fires or is stopped.
  \<^verbatim>\<open>Stop\<close> disarms an armed timer and does nothing to one that has fired. The timer
  carries the variables its function has captured: the node and \<^verbatim>\<open>when\<close>. The field
  \<^verbatim>\<open>when\<close> of a schedule is written \<open>when'\<close>.
\<close>

datatype timerState = Armed | Fired | Stopped

record timer =
  state :: timerState
  node :: string
  capturedWhen :: time

fun stopState :: "timerState \<Rightarrow> timerState" where
  "stopState Armed = Stopped"
| "stopState Fired = Fired"
| "stopState Stopped = Stopped"

definition Stop :: "timer \<Rightarrow> timer" where
  "Stop t = t\<lparr>state := stopState (state t)\<rparr>"

record schedule =
  when' :: time
  failed :: "32 word"
  finish :: time
  timer :: timer

definition setFailed :: "schedule \<Rightarrow> schedule" where
  "setFailed s = s\<lparr>failed := 1\<rparr>"

definition isFailed :: "schedule \<Rightarrow> bool" where
  "isFailed s \<longleftrightarrow> failed s = 1"

text \<open>
  The map holds pointers (\<^verbatim>\<open>map[string]*schedule\<close>), and the function of a timer keeps
  the pointer to its own schedule after the entry has left the map. So the schedules live
  in a store, \<open>heap\<close>, from addresses to schedule objects; \<open>nextAddr\<close> is the address the
  next allocation takes. The other fields are those of the Go struct; \<open>logger\<close>,
  \<open>eventRecorder\<close> and \<open>stats\<close> hold what has been written to each sink, oldest first.
\<close>

type_synonym addr = nat

record DrainSchedules =
  schedules :: "string \<rightharpoonup> addr"
  lastDrainScheduledFor :: time
  period :: duration
  logger :: "logLine list"
  eventRecorder :: "event list"
  stats :: "measurement list"
  heap :: "addr \<Rightarrow> schedule"
  nextAddr :: addr

text \<open>
  \<^verbatim>\<open>NewDrainSchedules\<close> (lines 43 to 51) starts with an empty map; \<^verbatim>\<open>lastDrainScheduledFor\<close>
  is the zero time, as Go leaves a field that the literal does not name. Nothing has been
  allocated and nothing written to the sinks. The drainer is a parameter of the calls
  that consult it.
\<close>

definition emptySchedule :: schedule where
  "emptySchedule =
     \<lparr>when' = zeroTime, failed = 0, finish = zeroTime,
      timer = \<lparr>state = Stopped, node = [], capturedWhen = zeroTime\<rparr>\<rparr>"

definition NewDrainSchedules :: "duration \<Rightarrow> DrainSchedules" where
  "NewDrainSchedules p =
     \<lparr>schedules = Map.empty, lastDrainScheduledFor = zeroTime, period = p,
      logger = [], eventRecorder = [], stats = [],
      heap = (\<lambda>a. emptySchedule), nextAddr = 0\<rparr>"

definition writeLog :: "level \<Rightarrow> string \<Rightarrow> DrainSchedules \<Rightarrow> DrainSchedules" where
  "writeLog l m d = d\<lparr>logger := logger d @ [(l, m)]\<rparr>"

definition Event :: "string \<Rightarrow> eventReason \<Rightarrow> string \<Rightarrow> DrainSchedules \<Rightarrow> DrainSchedules" where
  "Event n r m d = d\<lparr>eventRecorder := eventRecorder d @ [(n, r, m)]\<rparr>"

definition Record :: "string \<Rightarrow> tagResult \<Rightarrow> DrainSchedules \<Rightarrow> DrainSchedules" where
  "Record n r d = d\<lparr>stats := stats d @ [(n, r)]\<rparr>"

definition updateSchedule :: "addr \<Rightarrow> (schedule \<Rightarrow> schedule) \<Rightarrow> DrainSchedules \<Rightarrow> DrainSchedules" where
  "updateSchedule a f d = d\<lparr>heap := (heap d)(a := f (heap d a))\<rparr>"

subsection \<open>The operations of the engine\<close>

text \<open>
  The methods of \<^verbatim>\<open>*DrainSchedules\<close>, in the order of the source file. The receiver comes
  first, then the arguments of the Go method, then what the call reads from outside: the
  drainer and the clock. A method that writes to the engine or to a sink returns the new
  state beside its result. \<^verbatim>\<open>IsScheduledByOldEvent\<close> (lines 53 to 61) only reads.
  \<^verbatim>\<open>HasSchedule\<close> (lines 63 to 72) logs one line when the entry exists.
  \<^verbatim>\<open>DeleteSchedule\<close> (lines 74 to 83) stops the timer of the entry and deletes the entry,
  or logs a warning. \<^verbatim>\<open>WhenNextSchedule\<close> (lines 85 to 93) reads the clock once.
\<close>

definition IsScheduledByOldEvent :: "DrainSchedules \<Rightarrow> string \<Rightarrow> time \<Rightarrow> bool" where
  "IsScheduledByOldEvent d name transitionTime =
     (case schedules d name of
        None \<Rightarrow> False
      | Some a \<Rightarrow>
          Before (when' (heap d a)) transitionTime \<and> \<not> isFailed (heap d a)
          \<and> \<not> IsZero (finish (heap d a)))"

definition HasSchedule :: "DrainSchedules \<Rightarrow> string \<Rightarrow> (bool \<times> bool) \<times> DrainSchedules" where
  "HasSchedule d name =
     (case schedules d name of
        None \<Rightarrow> ((False, False), d)
      | Some a \<Rightarrow> ((True, isFailed (heap d a)), writeLog Info ''HasSchedule'' d))"

definition DeleteSchedule :: "DrainSchedules \<Rightarrow> string \<Rightarrow> DrainSchedules" where
  "DeleteSchedule d name =
     (case schedules d name of
        Some a \<Rightarrow>
          (let d1 = updateSchedule a (\<lambda>s. s\<lparr>timer := Stop (timer s)\<rparr>) d
           in d1\<lparr>schedules := (schedules d1)(name := None)\<rparr>)
      | None \<Rightarrow> writeLog Warn ''Entry not found in deletion schedule'' d)"

definition WhenNextSchedule :: "DrainSchedules \<Rightarrow> time \<Rightarrow> time" where
  "WhenNextSchedule d now =
     (let sooner = Add now (SetConditionTimeout + Second);
          when = Add (lastDrainScheduledFor d) (period d)
      in if Before when sooner then sooner else when)"

text \<open>
  \<^verbatim>\<open>newSchedule\<close> allocates the schedule and arms its timer with \<^verbatim>\<open>time.AfterFunc\<close>. The
  delay \<^verbatim>\<open>time.Until(when)\<close> decides when the runtime fires the timer; here the firing is
  the step \<open>timerFires\<close> below, which an armed timer can take.
\<close>

definition newSchedule :: "DrainSchedules \<Rightarrow> string \<Rightarrow> time \<Rightarrow> addr \<times> DrainSchedules" where
  "newSchedule d n when =
     (let sched = \<lparr>when' = when, failed = 0, finish = zeroTime,
                   timer = \<lparr>state = Armed, node = n, capturedWhen = when\<rparr>\<rparr>
      in (nextAddr d, d\<lparr>heap := (heap d)(nextAddr d := sched), nextAddr := Suc (nextAddr d)\<rparr>))"

text \<open>
  \<^verbatim>\<open>Schedule\<close> (lines 95 to 122). Under the lock it returns early for a node with an entry,
  or computes the time, stores it in \<^verbatim>\<open>lastDrainScheduledFor\<close> and puts the new schedule
  into the map. After the lock is released it announces the schedule with
  \<^verbatim>\<open>MarkDrain(node, when, time.Time{}, false)\<close> under \<^verbatim>\<open>RetryWithTimeout\<close>; on an error it
  logs, calls \<^verbatim>\<open>DeleteSchedule\<close> and returns the zero time with the error. The two critical
  sections and the announcement between them are taken in one step: no other call and no
  timer runs in between.
\<close>

definition Schedule ::
  "DrainSchedules \<Rightarrow> string \<Rightarrow> drainer \<Rightarrow> time \<Rightarrow> (time \<times> error option) \<times> DrainSchedules" where
  "Schedule d n dr now =
     (case schedules d n of
        Some a \<Rightarrow> ((when' (heap d a), Some NewAlreadyScheduledError), d)
      | None \<Rightarrow>
          (let when = WhenNextSchedule d now;
               d1 = d\<lparr>lastDrainScheduledFor := when\<rparr>;
               (a, d2) = newSchedule d1 n when;
               d3 = d2\<lparr>schedules := (schedules d2)(n \<mapsto> a)\<rparr>
           in case RetryWithTimeout (MarkDrain dr n when zeroTime False)
                     SetConditionRetryPeriod SetConditionTimeout of
                Some err \<Rightarrow>
                  ((zeroTime, Some err), DeleteSchedule (writeLog Info ''Delete Schedule'' d3) n)
              | None \<Rightarrow> ((when, None), d3)))"

subsection \<open>The function of a schedule's timer\<close>

text \<open>
  The function passed to \<^verbatim>\<open>time.AfterFunc\<close> (lines 143 to 183) runs in two stretches.
  The first calls \<^verbatim>\<open>Drain\<close> and records the outcome in the schedule (\<open>drainFailed\<close>,
  lines 149 to 155, and \<open>drainSucceeded\<close>, lines 168 to 172);
  the second announces the outcome with \<^verbatim>\<open>RetryWithTimeout\<close>, which can take the whole
  timeout (\<open>announceFailed\<close>, \<open>announceSucceeded\<close>). \<open>a\<close> is the captured pointer
  \<^verbatim>\<open>sched\<close>, \<open>now\<close> the reading of \<^verbatim>\<open>time.Now()\<close> when \<^verbatim>\<open>Drain\<close> has returned.
\<close>

definition drainFailed :: "addr \<Rightarrow> string \<Rightarrow> error \<Rightarrow> time \<Rightarrow> DrainSchedules \<Rightarrow> DrainSchedules" where
  "drainFailed a n err now d =
     (let d1 = writeLog Info ''Failed to drain'' d;
          d2 = updateSchedule a (\<lambda>s. s\<lparr>finish := now\<rparr>) d1;
          d3 = updateSchedule a setFailed d2;
          d4 = Record n tagResultFailed d3
      in Event n eventReasonDrainFailed (''Draining failed: '' @ errorText err) d4)"

definition announceFailed :: "drainer \<Rightarrow> addr \<Rightarrow> string \<Rightarrow> time \<Rightarrow> DrainSchedules \<Rightarrow> DrainSchedules" where
  "announceFailed dr a n when d =
     (case RetryWithTimeout (MarkDrain dr n when (finish (heap d a)) True)
             SetConditionRetryPeriod SetConditionTimeout of
        Some err \<Rightarrow> writeLog Error ''Failed to place condition following drain failure'' d
      | None \<Rightarrow> d)"

definition drainSucceeded :: "addr \<Rightarrow> string \<Rightarrow> time \<Rightarrow> DrainSchedules \<Rightarrow> DrainSchedules" where
  "drainSucceeded a n now d =
     (let d1 = writeLog Info ''Drained'' d;
          d2 = updateSchedule a (\<lambda>s. s\<lparr>finish := now\<rparr>) d1;
          d3 = Record n tagResultSucceeded d2
      in Event n eventReasonDrainSucceeded ''Drained node'' d3)"

definition announceSucceeded :: "drainer \<Rightarrow> addr \<Rightarrow> string \<Rightarrow> time \<Rightarrow> DrainSchedules \<Rightarrow> DrainSchedules" where
  "announceSucceeded dr a n when d =
     (case RetryWithTimeout (MarkDrain dr n when (finish (heap d a)) False)
             SetConditionRetryPeriod SetConditionTimeout of
        Some err \<Rightarrow>
          writeLog Error (''Failed to place condition following drain success : '' @ errorText err)
            (Event n eventReasonDrainFailed (''Failed to place drain condition: '' @ errorText err) d)
      | None \<Rightarrow> d)"

definition timerFunc :: "DrainSchedules \<Rightarrow> addr \<Rightarrow> drainer \<Rightarrow> time \<Rightarrow> DrainSchedules" where
  "timerFunc d a dr now =
     (let n = node (timer (heap d a));
          when = capturedWhen (timer (heap d a));
          d1 = Event n eventReasonDrainStarting ''Draining node'' d
      in case Drain dr n of
           Some err \<Rightarrow> announceFailed dr a n when (drainFailed a n err now d1)
         | None \<Rightarrow> announceSucceeded dr a n when (drainSucceeded a n now d1))"

text \<open>
  A timer fires at most once, and only while it is armed: the runtime marks it as fired
  and runs its function. On a timer that has fired or was stopped nothing happens.
\<close>

definition timerFires :: "DrainSchedules \<Rightarrow> addr \<Rightarrow> drainer \<Rightarrow> time \<Rightarrow> DrainSchedules" where
  "timerFires d a dr now =
     (if state (timer (heap d a)) = Armed
      then timerFunc (updateSchedule a (\<lambda>s. s\<lparr>timer := (timer s)\<lparr>state := Fired\<rparr>\<rparr>) d) a dr now
      else d)"

subsection \<open>Runs of the engine\<close>

text \<open>
  Everything that can happen to the engine: a call of one of the four operations of the
  interface, or the firing of a timer.
\<close>

datatype operation =
    CallSchedule string drainer time
  | CallHasSchedule string
  | CallDeleteSchedule string
  | CallIsScheduledByOldEvent string time
  | TimerFires addr drainer time

fun perform :: "operation \<Rightarrow> DrainSchedules \<Rightarrow> DrainSchedules" where
  "perform (CallSchedule n dr now) d = snd (Schedule d n dr now)"
| "perform (CallHasSchedule name) d = snd (HasSchedule d name)"
| "perform (CallDeleteSchedule name) d = DeleteSchedule d name"
| "perform (CallIsScheduledByOldEvent name t) d = d"
| "perform (TimerFires a dr now) d = timerFires d a dr now"

fun run :: "operation list \<Rightarrow> DrainSchedules \<Rightarrow> DrainSchedules" where
  "run [] d = d"
| "run (op # ops) d = run ops (perform op d)"

subsection \<open>Example inputs\<close>

text \<open>
  Concrete inputs on which the theorems below are instantiated: a drainer whose calls all
  succeed and one whose calls all fail, a period of five minutes, a clock reading in the
  year 2026, the engine as \<^verbatim>\<open>NewDrainSchedules\<close> returns it, and the engine after node A
  has been scheduled.
\<close>

definition okDrainer :: drainer where
  "okDrainer = \<lparr>Drain = (\<lambda>n. None), MarkDrain = (\<lambda>n w f b k. None)\<rparr>"

definition failingDrainer :: drainer where
  "failingDrainer =
     \<lparr>Drain = (\<lambda>n. Some (DrainerError ''eviction failed'')),
      MarkDrain = (\<lambda>n w f b k. Some (DrainerError ''conflict''))\<rparr>"

definition fiveMinutes :: duration where
  "fiveMinutes = 300 * Second"

definition clock0 :: time where
  "clock0 = 63930000000000000000"

definition engine0 :: DrainSchedules where
  "engine0 = NewDrainSchedules fiveMinutes"

definition engine1 :: DrainSchedules where
  "engine1 = snd (Schedule engine0 ''nodeA'' okDrainer clock0)"

section \<open>Properties\<close>

subsection \<open>Constants and the retry primitive\<close>

lemma sint_floor: "sint (SetConditionTimeout + Second) = 11000000000"
  by (simp add: SetConditionTimeout_def Second_def)

lemma sint_fiveMinutes: "sint fiveMinutes = 300000000000"
  by (simp add: fiveMinutes_def Second_def)

lemma retryLoop_all_fail: "\<forall>k. f k = Some e \<Longrightarrow> retryLoop f j n e = Some e"
  by (induction n arbitrary: j) simp_all

lemma RetryWithTimeout_all_fail: "\<forall>k. f k = Some e \<Longrightarrow> RetryWithTimeout f p t = Some e"
  by (simp add: RetryWithTimeout_def retryLoop_all_fail)

lemma RetryWithTimeout_first: "f 0 = None \<Longrightarrow> RetryWithTimeout f p t = None"
  by (simp add: RetryWithTimeout_def)

lemma writeLog_simps [simp]:
  "schedules (writeLog l m d) = schedules d"
  "heap (writeLog l m d) = heap d"
  "lastDrainScheduledFor (writeLog l m d) = lastDrainScheduledFor d"
  "period (writeLog l m d) = period d"
  "nextAddr (writeLog l m d) = nextAddr d"
  by (simp_all add: writeLog_def)

lemma Event_simps [simp]:
  "schedules (Event n r m d) = schedules d"
  "heap (Event n r m d) = heap d"
  "lastDrainScheduledFor (Event n r m d) = lastDrainScheduledFor d"
  "period (Event n r m d) = period d"
  "nextAddr (Event n r m d) = nextAddr d"
  "logger (Event n r m d) = logger d"
  by (simp_all add: Event_def)

lemma Record_simps [simp]:
  "schedules (Record n r d) = schedules d"
  "heap (Record n r d) = heap d"
  "lastDrainScheduledFor (Record n r d) = lastDrainScheduledFor d"
  "period (Record n r d) = period d"
  "nextAddr (Record n r d) = nextAddr d"
  "logger (Record n r d) = logger d"
  by (simp_all add: Record_def)

lemma updateSchedule_simps [simp]:
  "schedules (updateSchedule a f d) = schedules d"
  "heap (updateSchedule a f d) = (heap d)(a := f (heap d a))"
  "lastDrainScheduledFor (updateSchedule a f d) = lastDrainScheduledFor d"
  "period (updateSchedule a f d) = period d"
  "nextAddr (updateSchedule a f d) = nextAddr d"
  "logger (updateSchedule a f d) = logger d"
  by (simp_all add: updateSchedule_def)

lemma WhenNextSchedule_eq:
  "WhenNextSchedule d now = max (lastDrainScheduledFor d + sint (period d)) (now + 11000000000)"
  by (simp add: WhenNextSchedule_def Let_def Add_def Before_def sint_floor max_def)

lemma WhenNextSchedule_only_reads:
  "lastDrainScheduledFor d' = lastDrainScheduledFor d \<Longrightarrow> period d' = period d \<Longrightarrow>
   WhenNextSchedule d' now = WhenNextSchedule d now"
  by (simp add: WhenNextSchedule_def)

lemma DeleteSchedule_simps [simp]:
  "lastDrainScheduledFor (DeleteSchedule d name) = lastDrainScheduledFor d"
  "period (DeleteSchedule d name) = period d"
  "nextAddr (DeleteSchedule d name) = nextAddr d"
  "schedules (DeleteSchedule d name) = (schedules d)(name := None)"
  by (auto simp: DeleteSchedule_def Let_def split: option.splits)

lemma HasSchedule_simps [simp]:
  "lastDrainScheduledFor (snd (HasSchedule d name)) = lastDrainScheduledFor d"
  "period (snd (HasSchedule d name)) = period d"
  "schedules (snd (HasSchedule d name)) = schedules d"
  "heap (snd (HasSchedule d name)) = heap d"
  by (simp_all add: HasSchedule_def split: option.splits)

lemma announce_simps [simp]:
  "schedules (announceFailed dr a n w d) = schedules d"
  "heap (announceFailed dr a n w d) = heap d"
  "lastDrainScheduledFor (announceFailed dr a n w d) = lastDrainScheduledFor d"
  "period (announceFailed dr a n w d) = period d"
  "schedules (announceSucceeded dr a n w d) = schedules d"
  "heap (announceSucceeded dr a n w d) = heap d"
  "lastDrainScheduledFor (announceSucceeded dr a n w d) = lastDrainScheduledFor d"
  "period (announceSucceeded dr a n w d) = period d"
  by (simp_all add: announceFailed_def announceSucceeded_def split: option.splits)

lemma drain_simps [simp]:
  "schedules (drainFailed a n err now d) = schedules d"
  "heap (drainFailed a n err now d) = (heap d)(a := (heap d a)\<lparr>finish := now, failed := 1\<rparr>)"
  "lastDrainScheduledFor (drainFailed a n err now d) = lastDrainScheduledFor d"
  "period (drainFailed a n err now d) = period d"
  "schedules (drainSucceeded a n now d) = schedules d"
  "heap (drainSucceeded a n now d) = (heap d)(a := (heap d a)\<lparr>finish := now\<rparr>)"
  "lastDrainScheduledFor (drainSucceeded a n now d) = lastDrainScheduledFor d"
  "period (drainSucceeded a n now d) = period d"
  by (simp_all add: drainFailed_def drainSucceeded_def Let_def setFailed_def)

lemma timerFunc_simps [simp]:
  "schedules (timerFunc d a dr now) = schedules d"
  "lastDrainScheduledFor (timerFunc d a dr now) = lastDrainScheduledFor d"
  "period (timerFunc d a dr now) = period d"
  by (simp_all add: timerFunc_def Let_def split: option.splits)

lemma timerFires_simps [simp]:
  "schedules (timerFires d a dr now) = schedules d"
  "lastDrainScheduledFor (timerFires d a dr now) = lastDrainScheduledFor d"
  "period (timerFires d a dr now) = period d"
  by (simp_all add: timerFires_def)

lemma Schedule_period [simp]: "period (snd (Schedule d n dr now)) = period d"
  by (simp add: Schedule_def Let_def newSchedule_def split: option.splits)

subsection \<open>The three paths of Schedule\<close>

lemma Schedule_existing:
  "schedules d n = Some a \<Longrightarrow>
   Schedule d n dr now = ((when' (heap d a), Some NewAlreadyScheduledError), d)"
  by (simp add: Schedule_def)

lemma Schedule_announced:
  "schedules d n = None \<Longrightarrow>
   RetryWithTimeout (MarkDrain dr n (WhenNextSchedule d now) zeroTime False)
     SetConditionRetryPeriod SetConditionTimeout = None \<Longrightarrow>
   Schedule d n dr now =
     ((WhenNextSchedule d now, None),
      d\<lparr>schedules := (schedules d)(n \<mapsto> nextAddr d),
        lastDrainScheduledFor := WhenNextSchedule d now,
        heap := (heap d)(nextAddr d :=
          \<lparr>when' = WhenNextSchedule d now, failed = 0, finish = zeroTime,
           timer = \<lparr>state = Armed, node = n, capturedWhen = WhenNextSchedule d now\<rparr>\<rparr>),
        nextAddr := Suc (nextAddr d)\<rparr>)"
  by (simp add: Schedule_def Let_def newSchedule_def)

lemma Schedule_rolled_back:
  "schedules d n = None \<Longrightarrow>
   RetryWithTimeout (MarkDrain dr n (WhenNextSchedule d now) zeroTime False)
     SetConditionRetryPeriod SetConditionTimeout = Some err \<Longrightarrow>
   Schedule d n dr now =
     ((zeroTime, Some err),
      d\<lparr>schedules := (schedules d)(n := None),
        lastDrainScheduledFor := WhenNextSchedule d now,
        logger := logger d @ [(Info, ''Delete Schedule'')],
        heap := (heap d)(nextAddr d :=
          \<lparr>when' = WhenNextSchedule d now, failed = 0, finish = zeroTime,
           timer = \<lparr>state = Stopped, node = n, capturedWhen = WhenNextSchedule d now\<rparr>\<rparr>),
        nextAddr := Suc (nextAddr d)\<rparr>)"
  by (simp add: Schedule_def Let_def newSchedule_def DeleteSchedule_def writeLog_def
      updateSchedule_def Stop_def)

lemma Schedule_last:
  "schedules d n = None \<Longrightarrow>
   lastDrainScheduledFor (snd (Schedule d n dr now)) = WhenNextSchedule d now"
  by (simp add: Schedule_def Let_def newSchedule_def split: option.splits prod.splits)

subsection \<open>The example engine\<close>

lemma engine0_Schedule_nodeA:
  "Schedule engine0 ''nodeA'' okDrainer clock0 =
     ((clock0 + 11000000000, None),
      engine0\<lparr>schedules := [''nodeA'' \<mapsto> 0],
        lastDrainScheduledFor := clock0 + 11000000000,
        heap := (heap engine0)(0 :=
          \<lparr>when' = clock0 + 11000000000, failed = 0, finish = zeroTime,
           timer = \<lparr>state = Armed, node = ''nodeA'', capturedWhen = clock0 + 11000000000\<rparr>\<rparr>),
        nextAddr := Suc 0\<rparr>)"
proof -
  have w: "WhenNextSchedule engine0 clock0 = clock0 + 11000000000"
    by (simp add: WhenNextSchedule_eq engine0_def NewDrainSchedules_def clock0_def
        sint_fiveMinutes zeroTime_def)
  have e: "schedules engine0 ''nodeA'' = None" "schedules engine0 = Map.empty" "nextAddr engine0 = 0"
    by (simp_all add: engine0_def NewDrainSchedules_def)
  have r: "RetryWithTimeout (MarkDrain okDrainer ''nodeA'' (WhenNextSchedule engine0 clock0) zeroTime False)
             SetConditionRetryPeriod SetConditionTimeout = None"
    by (rule RetryWithTimeout_first) (simp add: okDrainer_def)
  show ?thesis
    using Schedule_announced [OF e(1) r] by (simp add: w e)
qed

subsection \<open>The timer function, deletion and runs\<close>

lemma announceFailed_only_logs:
  "announceFailed dr a n w d =
     d\<lparr>logger := logger d @
       (case RetryWithTimeout (MarkDrain dr n w (finish (heap d a)) True)
               SetConditionRetryPeriod SetConditionTimeout of
          Some e \<Rightarrow> [(Error, ''Failed to place condition following drain failure'')]
        | None \<Rightarrow> [])\<rparr>"
  by (simp add: announceFailed_def writeLog_def split: option.splits)

lemma engine1_fields:
  "schedules engine1 = [''nodeA'' \<mapsto> 0]"
  "heap engine1 0 =
     \<lparr>when' = clock0 + 11000000000, failed = 0, finish = zeroTime,
      timer = \<lparr>state = Armed, node = ''nodeA'', capturedWhen = clock0 + 11000000000\<rparr>\<rparr>"
  "lastDrainScheduledFor engine1 = clock0 + 11000000000"
  "period engine1 = fiveMinutes"
  "nextAddr engine1 = 1"
  "logger engine1 = []"
  by (simp_all add: engine1_def engine0_Schedule_nodeA) (simp_all add: engine0_def NewDrainSchedules_def)

lemma Schedule_success_fresh:
  assumes "Schedule d n dr now = ((w, None), d')"
  shows "schedules d n = None \<and> w = WhenNextSchedule d now \<and> lastDrainScheduledFor d' = w
         \<and> period d' = period d"
proof (cases "schedules d n")
  case (Some a)
  with assms show ?thesis by (simp add: Schedule_existing)
next
  case None
  show ?thesis
  proof (cases "RetryWithTimeout (MarkDrain dr n (WhenNextSchedule d now) zeroTime False)
                  SetConditionRetryPeriod SetConditionTimeout")
    case (Some e)
    with None assms show ?thesis by (simp add: Schedule_rolled_back)
  next
    case N: None
    from Schedule_announced [OF None N] assms show ?thesis
      using None by auto
  qed
qed

lemma engine1_Schedule_nodeB:
  "fst (Schedule engine1 ''nodeB'' okDrainer clock0) = (clock0 + 311000000000, None)"
proof -
  have w: "WhenNextSchedule engine1 clock0 = clock0 + 311000000000"
    by (simp add: WhenNextSchedule_eq engine1_fields sint_fiveMinutes)
  have e: "schedules engine1 ''nodeB'' = None"
    by (simp add: engine1_fields)
  have r: "RetryWithTimeout (MarkDrain okDrainer ''nodeB'' (WhenNextSchedule engine1 clock0) zeroTime False)
             SetConditionRetryPeriod SetConditionTimeout = None"
    by (rule RetryWithTimeout_first) (simp add: okDrainer_def)
  show ?thesis
    by (simp add: Schedule_announced [OF e r] w)
qed

lemma perform_period: "period (perform op d) = period d"
  by (cases op) simp_all

lemma WhenNextSchedule_ge_last:
  "0 \<le> sint (period d) \<Longrightarrow> lastDrainScheduledFor d \<le> WhenNextSchedule d now"
  by (simp add: WhenNextSchedule_eq max_def)

lemma Schedule_last_cases:
  "lastDrainScheduledFor (snd (Schedule d n dr now)) =
     (if schedules d n = None then WhenNextSchedule d now else lastDrainScheduledFor d)"
  by (auto simp: Schedule_last Schedule_existing)

lemma perform_last:
  "0 \<le> sint (period d) \<Longrightarrow> lastDrainScheduledFor d \<le> lastDrainScheduledFor (perform op d)"
  by (cases op) (simp_all add: Schedule_last_cases WhenNextSchedule_ge_last)

lemma run_last:
  "0 \<le> sint (period d) \<Longrightarrow> lastDrainScheduledFor d \<le> lastDrainScheduledFor (run ops d)"
proof (induction ops arbitrary: d)
  case Nil
  show ?case by simp
next
  case (Cons op ops)
  have "lastDrainScheduledFor d \<le> lastDrainScheduledFor (perform op d)"
    using Cons.prems by (rule perform_last)
  also have "\<dots> \<le> lastDrainScheduledFor (run ops (perform op d))"
    using Cons.prems by (intro Cons.IH) (simp add: perform_period)
  finally show ?case by simp
qed

lemma DeleteSchedule_heap:
  "schedules d name = Some a \<Longrightarrow>
   heap (DeleteSchedule d name) = (heap d)(a := (heap d a)\<lparr>timer := Stop (timer (heap d a))\<rparr>)"
  by (simp add: DeleteSchedule_def Let_def)

lemma stopState_not_Armed: "stopState s \<noteq> Armed"
  by (cases s) simp_all

lemma Schedule_error:
  "schedules d n = None \<Longrightarrow>
   snd (fst (Schedule d n dr now)) =
     RetryWithTimeout (MarkDrain dr n (WhenNextSchedule d now) zeroTime False)
       SetConditionRetryPeriod SetConditionTimeout"
  by (cases "RetryWithTimeout (MarkDrain dr n (WhenNextSchedule d now) zeroTime False)
       SetConditionRetryPeriod SetConditionTimeout")
     (simp_all add: Schedule_announced Schedule_rolled_back)

lemma WhenNextSchedule_mono:
  "now \<le> now' \<Longrightarrow> WhenNextSchedule d now \<le> WhenNextSchedule d now'"
  by (simp add: WhenNextSchedule_eq max_def)

section \<open>The claims\<close>

text \<open>
  Claim C1. \<^verbatim>\<open>WhenNextSchedule\<close> returns the later of two instants: the candidate
  \<^verbatim>\<open>lastDrainScheduledFor + period\<close> and the floor
  \<^verbatim>\<open>now + SetConditionTimeout + 1 second\<close>, which is \<open>now\<close> plus eleven seconds. In
  every state of the engine and at every clock reading the result is the candidate when
  the candidate is not before the floor, and the floor otherwise.
\<close>

theorem WhenNextSchedule_max:
  "WhenNextSchedule d now =
     max (Add (lastDrainScheduledFor d) (period d)) (Add now (SetConditionTimeout + Second))
   \<and> (\<not> Before (Add (lastDrainScheduledFor d) (period d)) (Add now (SetConditionTimeout + Second))
        \<longrightarrow> WhenNextSchedule d now = Add (lastDrainScheduledFor d) (period d))
   \<and> (Before (Add (lastDrainScheduledFor d) (period d)) (Add now (SetConditionTimeout + Second))
        \<longrightarrow> WhenNextSchedule d now = Add now (SetConditionTimeout + Second))
   \<and> Add now (SetConditionTimeout + Second) = now + 11 * 1000000000"
  by (simp add: WhenNextSchedule_def Let_def Add_def Before_def sint_floor max_def)

theorem WhenNextSchedule_max_witness:
  "WhenNextSchedule engine0 clock0 = clock0 + 11000000000
   \<and> WhenNextSchedule (engine0\<lparr>lastDrainScheduledFor := clock0\<rparr>) clock0 = clock0 + 300000000000"
  using WhenNextSchedule_max [of engine0 clock0]
    WhenNextSchedule_max [of "engine0\<lparr>lastDrainScheduledFor := clock0\<rparr>" clock0]
  by (simp add: engine0_def NewDrainSchedules_def clock0_def Add_def Before_def sint_floor
      sint_fiveMinutes zeroTime_def)

text \<open>
  Claim C2. When the node has no entry and the announcement of the new schedule, retried
  for the whole timeout, ends in an error, then \<^verbatim>\<open>Schedule\<close> returns that error, the
  schedules map is as it was before the call (no entry for the node), the timer of the
  schedule that the call created (the object at the address \<open>nextAddr d\<close>) is stopped and
  can no longer fire, and \<^verbatim>\<open>HasSchedule\<close> for the node then answers \<open>(False, False)\<close>.
\<close>

theorem Schedule_announcement_fails:
  assumes "schedules d n = None"
    and "RetryWithTimeout (MarkDrain dr n (WhenNextSchedule d now) zeroTime False)
           SetConditionRetryPeriod SetConditionTimeout = Some err"
  shows "fst (Schedule d n dr now) = (zeroTime, Some err)
    \<and> schedules (snd (Schedule d n dr now)) n = None
    \<and> schedules (snd (Schedule d n dr now)) = schedules d
    \<and> state (timer (heap (snd (Schedule d n dr now)) (nextAddr d))) = Stopped
    \<and> timerFires (snd (Schedule d n dr now)) (nextAddr d) dr' now' = snd (Schedule d n dr now)
    \<and> fst (HasSchedule (snd (Schedule d n dr now)) n) = (False, False)"
proof -
  note S = Schedule_rolled_back [OF assms]
  have m: "(schedules d)(n := None) = schedules d"
    using assms(1) by (rule fun_upd_idem)
  show ?thesis
    by (simp add: S m assms(1) HasSchedule_def timerFires_def)
qed

theorem Schedule_announcement_fails_witness:
  "fst (Schedule engine0 ''nodeC'' failingDrainer clock0) = (zeroTime, Some (DrainerError ''conflict''))
   \<and> fst (HasSchedule (snd (Schedule engine0 ''nodeC'' failingDrainer clock0)) ''nodeC'') = (False, False)
   \<and> state (timer (heap (snd (Schedule engine0 ''nodeC'' failingDrainer clock0)) 0)) = Stopped"
proof -
  have e: "schedules engine0 ''nodeC'' = None"
    by (simp add: engine0_def NewDrainSchedules_def)
  have r: "RetryWithTimeout (MarkDrain failingDrainer ''nodeC'' (WhenNextSchedule engine0 clock0) zeroTime False)
             SetConditionRetryPeriod SetConditionTimeout = Some (DrainerError ''conflict'')"
    by (rule RetryWithTimeout_all_fail) (simp add: failingDrainer_def)
  have n: "nextAddr engine0 = 0"
    by (simp add: engine0_def NewDrainSchedules_def)
  show ?thesis
    using Schedule_announcement_fails [OF e r] by (simp add: n)
qed

text \<open>
  Claim C3. When the node already has an entry, \<^verbatim>\<open>Schedule\<close> returns the \<^verbatim>\<open>when\<close> of the
  existing schedule and an error that \<^verbatim>\<open>IsAlreadyScheduledError\<close> recognises, and the
  state after the call is the state before it: the map, the time of the existing schedule
  and \<^verbatim>\<open>lastDrainScheduledFor\<close> are unchanged.
\<close>

theorem Schedule_twice:
  assumes "schedules d n = Some a"
  shows "Schedule d n dr now = ((when' (heap d a), Some NewAlreadyScheduledError), d)
    \<and> IsAlreadyScheduledError (snd (fst (Schedule d n dr now)))
    \<and> schedules (snd (Schedule d n dr now)) = schedules d
    \<and> when' (heap (snd (Schedule d n dr now)) a) = when' (heap d a)
    \<and> lastDrainScheduledFor (snd (Schedule d n dr now)) = lastDrainScheduledFor d"
  by (simp add: Schedule_existing [OF assms] NewAlreadyScheduledError_def)

theorem Schedule_twice_witness:
  "fst (Schedule (snd (Schedule engine0 ''nodeA'' okDrainer clock0)) ''nodeA'' okDrainer (clock0 + 5))
     = (clock0 + 11000000000, Some NewAlreadyScheduledError)
   \<and> snd (Schedule (snd (Schedule engine0 ''nodeA'' okDrainer clock0)) ''nodeA'' okDrainer (clock0 + 5))
     = snd (Schedule engine0 ''nodeA'' okDrainer clock0)
   \<and> IsAlreadyScheduledError
       (snd (fst (Schedule (snd (Schedule engine0 ''nodeA'' okDrainer clock0)) ''nodeA'' okDrainer (clock0 + 5))))"
proof -
  let ?d1 = "snd (Schedule engine0 ''nodeA'' okDrainer clock0)"
  have e: "schedules ?d1 ''nodeA'' = Some 0"
    by (simp add: engine0_Schedule_nodeA)
  have w: "when' (heap ?d1 0) = clock0 + 11000000000"
    by (simp add: engine0_Schedule_nodeA)
  from Schedule_twice [OF e, of okDrainer "clock0 + 5"]
  have "Schedule ?d1 ''nodeA'' okDrainer (clock0 + 5)
          = ((when' (heap ?d1 0), Some NewAlreadyScheduledError), ?d1)"
    and "IsAlreadyScheduledError (snd (fst (Schedule ?d1 ''nodeA'' okDrainer (clock0 + 5))))"
    by blast+
  then show ?thesis
    by (simp only: w fst_conv snd_conv simp_thms)
qed

text \<open>
  Claim C4. \<^verbatim>\<open>IsScheduledByOldEvent(name, transitionTime)\<close> is true exactly when the name has
  an entry whose \<^verbatim>\<open>finish\<close> is not the zero time, whose failed flag is not set and whose
  \<^verbatim>\<open>when\<close> is strictly before \<open>transitionTime\<close>; in every other case it is false.
\<close>

theorem IsScheduledByOldEvent_iff:
  "IsScheduledByOldEvent d name transitionTime \<longleftrightarrow>
     (\<exists>a. schedules d name = Some a
        \<and> finish (heap d a) \<noteq> zeroTime
        \<and> \<not> isFailed (heap d a)
        \<and> when' (heap d a) < transitionTime)"
  by (auto simp: IsScheduledByOldEvent_def IsZero_def Before_def split: option.splits)

theorem IsScheduledByOldEvent_iff_witness:
  "IsScheduledByOldEvent (timerFires engine1 0 okDrainer (clock0 + 11000000003)) ''nodeA''
      (clock0 + 900000000000)
   \<and> \<not> IsScheduledByOldEvent (timerFires engine1 0 okDrainer (clock0 + 11000000003)) ''nodeA''
      (clock0 + 11000000000)
   \<and> \<not> IsScheduledByOldEvent engine1 ''nodeA'' (clock0 + 900000000000)
   \<and> \<not> IsScheduledByOldEvent engine0 ''nodeA'' (clock0 + 900000000000)"
proof -
  let ?d' = "timerFires engine1 0 okDrainer (clock0 + 11000000003)"
  have s: "schedules ?d' = [''nodeA'' \<mapsto> 0]"
    by (simp add: engine1_fields)
  have h: "heap ?d' 0 =
     \<lparr>when' = clock0 + 11000000000, failed = 0, finish = clock0 + 11000000003,
      timer = \<lparr>state = Fired, node = ''nodeA'', capturedWhen = clock0 + 11000000000\<rparr>\<rparr>"
    by (simp add: timerFires_def timerFunc_def Let_def engine1_fields okDrainer_def)
  have e0: "schedules engine0 ''nodeA'' = None"
    by (simp add: engine0_def NewDrainSchedules_def)
  have c: "clock0 + 11000000003 \<noteq> zeroTime"
    by (simp add: clock0_def zeroTime_def)
  show ?thesis
    using IsScheduledByOldEvent_iff [of ?d' "''nodeA''" "clock0 + 900000000000"]
      IsScheduledByOldEvent_iff [of ?d' "''nodeA''" "clock0 + 11000000000"]
      IsScheduledByOldEvent_iff [of engine1 "''nodeA''" "clock0 + 900000000000"]
      IsScheduledByOldEvent_iff [of engine0 "''nodeA''" "clock0 + 900000000000"]
    by (simp add: s h e0 c engine1_fields isFailed_def)
qed

text \<open>
  Claim C5. The armed timer of the schedule that the map holds for \<open>name\<close> fires, and
  \<^verbatim>\<open>Drain\<close> returns an error. The clock reading \<open>now\<close> that \<^verbatim>\<open>time.Now()\<close> gives is not
  the zero time. Then the timer's function is the announcement applied to the state that
  \<open>drainFailed\<close> has left, and in that state, before the first attempt of the
  announcement, \<^verbatim>\<open>finish\<close> is \<open>now\<close> (not zero), the failed flag is set, \<^verbatim>\<open>HasSchedule\<close>
  answers \<open>(True, True)\<close> and \<^verbatim>\<open>IsScheduledByOldEvent\<close> is false for every time. The
  announcement is made with this \<^verbatim>\<open>finish\<close> and \<^verbatim>\<open>failed = true\<close>; whatever its outcome,
  it changes nothing but the log, to which a failed announcement adds one error line. So
  after the timer's function has returned, \<^verbatim>\<open>HasSchedule\<close> still answers \<open>(True, True)\<close>
  and \<^verbatim>\<open>IsScheduledByOldEvent\<close> is false for every time.
\<close>

theorem timer_fires_drain_fails:
  fixes d :: DrainSchedules and a :: addr
  defines "n \<equiv> node (timer (heap d a))"
    and "w \<equiv> capturedWhen (timer (heap d a))"
    and "started \<equiv> Event (node (timer (heap d a))) eventReasonDrainStarting ''Draining node''
            (updateSchedule a (\<lambda>s. s\<lparr>timer := (timer s)\<lparr>state := Fired\<rparr>\<rparr>) d)"
  assumes entry: "schedules d name = Some a"
    and armed: "state (timer (heap d a)) = Armed"
    and drain: "Drain dr n = Some err"
    and clock: "now \<noteq> zeroTime"
  shows "timerFires d a dr now = announceFailed dr a n w (drainFailed a n err now started)
    \<and> finish (heap (drainFailed a n err now started) a) = now
    \<and> \<not> IsZero (finish (heap (drainFailed a n err now started) a))
    \<and> isFailed (heap (drainFailed a n err now started) a)
    \<and> fst (HasSchedule (drainFailed a n err now started) name) = (True, True)
    \<and> (\<forall>t. \<not> IsScheduledByOldEvent (drainFailed a n err now started) name t)
    \<and> timerFires d a dr now =
        (drainFailed a n err now started)\<lparr>logger := logger (drainFailed a n err now started) @
          (case RetryWithTimeout (MarkDrain dr n w now True)
                  SetConditionRetryPeriod SetConditionTimeout of
             Some e \<Rightarrow> [(Error, ''Failed to place condition following drain failure'')]
           | None \<Rightarrow> [])\<rparr>
    \<and> \<not> IsZero (finish (heap (timerFires d a dr now) a))
    \<and> isFailed (heap (timerFires d a dr now) a)
    \<and> fst (HasSchedule (timerFires d a dr now) name) = (True, True)
    \<and> (\<forall>t. \<not> IsScheduledByOldEvent (timerFires d a dr now) name t)"
proof -
  let ?mid = "drainFailed a n err now started"
  have run: "timerFires d a dr now = announceFailed dr a n w ?mid"
    using armed drain
    by (simp add: timerFires_def timerFunc_def Let_def n_def w_def started_def)
  have fin: "finish (heap ?mid a) = now" and fl: "isFailed (heap ?mid a)"
    by (simp_all add: isFailed_def)
  have nz: "\<not> IsZero (finish (heap ?mid a))"
    using clock by (simp add: IsZero_def)
  have logs: "timerFires d a dr now =
        ?mid\<lparr>logger := logger ?mid @
          (case RetryWithTimeout (MarkDrain dr n w now True)
                  SetConditionRetryPeriod SetConditionTimeout of
             Some e \<Rightarrow> [(Error, ''Failed to place condition following drain failure'')]
           | None \<Rightarrow> [])\<rparr>"
    unfolding run using fin by (subst announceFailed_only_logs) simp
  have h: "heap (timerFires d a dr now) = heap ?mid" and m: "schedules (timerFires d a dr now) = schedules d"
    unfolding run by (simp_all add: started_def)
  have m0: "schedules started = schedules d"
    by (simp add: started_def)
  have has0: "fst (HasSchedule ?mid name) = (True, True)"
    using fl entry by (simp add: HasSchedule_def m0)
  have old0: "\<forall>t. \<not> IsScheduledByOldEvent ?mid name t"
    using fl entry by (simp add: IsScheduledByOldEvent_def m0)
  have has: "fst (HasSchedule (timerFires d a dr now) name) = (True, True)"
    using fl entry by (simp add: HasSchedule_def h m)
  have old: "\<forall>t. \<not> IsScheduledByOldEvent (timerFires d a dr now) name t"
    using fl entry by (simp add: IsScheduledByOldEvent_def h m)
  have nz': "\<not> IsZero (finish (heap (timerFires d a dr now) a))"
    unfolding h by (rule nz)
  have fl': "isFailed (heap (timerFires d a dr now) a)"
    unfolding h by (rule fl)
  show ?thesis
    by (intro conjI) (fact run fin nz fl has0 old0 logs nz' fl' has old)+
qed

theorem timer_fires_drain_fails_witness:
  "fst (HasSchedule (timerFires engine1 0 failingDrainer (clock0 + 11000000003)) ''nodeA'') = (True, True)
   \<and> \<not> IsScheduledByOldEvent (timerFires engine1 0 failingDrainer (clock0 + 11000000003)) ''nodeA''
         (clock0 + 900000000000)
   \<and> \<not> IsZero (finish (heap (timerFires engine1 0 failingDrainer (clock0 + 11000000003)) 0))
   \<and> isFailed (heap (timerFires engine1 0 failingDrainer (clock0 + 11000000003)) 0)
   \<and> logger (timerFires engine1 0 failingDrainer (clock0 + 11000000003)) =
        [(Info, ''Failed to drain''), (Error, ''Failed to place condition following drain failure'')]"
proof -
  let ?d' = "timerFires engine1 0 failingDrainer (clock0 + 11000000003)"
  have entry: "schedules engine1 ''nodeA'' = Some 0"
    and armed: "state (timer (heap engine1 0)) = Armed"
    and drain: "Drain failingDrainer (node (timer (heap engine1 0))) = Some (DrainerError ''eviction failed'')"
    and clock: "clock0 + 11000000003 \<noteq> zeroTime"
    by (simp_all add: engine1_fields failingDrainer_def clock0_def zeroTime_def)
  have r: "RetryWithTimeout
             (MarkDrain failingDrainer (node (timer (heap engine1 0)))
                (capturedWhen (timer (heap engine1 0))) (clock0 + 11000000003) True)
             SetConditionRetryPeriod SetConditionTimeout = Some (DrainerError ''conflict'')"
    by (rule RetryWithTimeout_all_fail) (simp add: failingDrainer_def)
  note T = timer_fires_drain_fails [OF entry armed drain clock]
  have has: "fst (HasSchedule ?d' ''nodeA'') = (True, True)"
    and old: "\<not> IsScheduledByOldEvent ?d' ''nodeA'' (clock0 + 900000000000)"
    and nz: "\<not> IsZero (finish (heap ?d' 0))"
    and fl: "isFailed (heap ?d' 0)"
    using T by blast+
  have "logger ?d' =
      logger (drainFailed 0 (node (timer (heap engine1 0))) (DrainerError ''eviction failed'')
                (clock0 + 11000000003)
                (Event (node (timer (heap engine1 0))) eventReasonDrainStarting ''Draining node''
                  (updateSchedule 0 (\<lambda>s. s\<lparr>timer := (timer s)\<lparr>state := Fired\<rparr>\<rparr>) engine1)))
      @ [(Error, ''Failed to place condition following drain failure'')]"
    by (subst T [THEN conjunct2, THEN conjunct2, THEN conjunct2, THEN conjunct2,
          THEN conjunct2, THEN conjunct2, THEN conjunct1])
       (simp add: r)
  then have lg: "logger ?d' =
      [(Info, ''Failed to drain''), (Error, ''Failed to place condition following drain failure'')]"
    by (simp add: drainFailed_def Let_def writeLog_def engine1_fields)
  show ?thesis
    by (intro conjI) (fact has old nz fl lg)+
qed

text \<open>
  Claim C6. Two calls of \<^verbatim>\<open>Schedule\<close> in succession that both return without error: the
  first has stored its time in \<^verbatim>\<open>lastDrainScheduledFor\<close>, so the second time is computed
  from it and is at least the first time plus the period. When the first time plus the
  period is not before the floor of the second call, the second time is exactly the first
  time plus the period. With a period that is not negative the second time is not before
  the first. The two nodes are necessarily distinct.
\<close>

theorem successive_Schedule_spacing:
  assumes first: "Schedule d nodeA drA nowA = ((whenA, None), dA)"
    and second: "Schedule dA nodeB drB nowB = ((whenB, None), dB)"
  shows "lastDrainScheduledFor dA = whenA
    \<and> whenB = WhenNextSchedule dA nowB
    \<and> Add whenA (period d) \<le> whenB
    \<and> (\<not> Before (Add whenA (period d)) (Add nowB (SetConditionTimeout + Second))
          \<longrightarrow> whenB = Add whenA (period d))
    \<and> (0 \<le> sint (period d) \<longrightarrow> whenA \<le> whenB)
    \<and> nodeA \<noteq> nodeB"
proof -
  from Schedule_success_fresh [OF first]
  have a: "lastDrainScheduledFor dA = whenA" "period dA = period d" "schedules d nodeA = None"
    by simp_all
  from Schedule_success_fresh [OF second]
  have b: "whenB = WhenNextSchedule dA nowB" "schedules dA nodeB = None"
    by simp_all
  have "schedules dA nodeA \<noteq> None"
  proof (cases "RetryWithTimeout (MarkDrain drA nodeA (WhenNextSchedule d nowA) zeroTime False)
                  SetConditionRetryPeriod SetConditionTimeout")
    case (Some e)
    with a(3) first show ?thesis by (simp add: Schedule_rolled_back)
  next
    case None
    from Schedule_announced [OF a(3) None] first show ?thesis by auto
  qed
  with b(2) have ne: "nodeA \<noteq> nodeB" by auto
  have w: "WhenNextSchedule dA nowB = max (whenA + sint (period d)) (nowB + 11000000000)"
    by (simp add: WhenNextSchedule_eq a)
  have "Add whenA (period d) \<le> whenB"
    and "\<not> Before (Add whenA (period d)) (Add nowB (SetConditionTimeout + Second))
          \<longrightarrow> whenB = Add whenA (period d)"
    and "0 \<le> sint (period d) \<longrightarrow> whenA \<le> whenB"
    unfolding b(1) w by (auto simp: Add_def Before_def sint_floor max_def)
  with a(1) b(1) ne show ?thesis
    by blast
qed

theorem successive_Schedule_spacing_witness:
  "fst (Schedule engine0 ''nodeA'' okDrainer clock0) = (clock0 + 11000000000, None)
   \<and> fst (Schedule engine1 ''nodeB'' okDrainer clock0) = (clock0 + 311000000000, None)
   \<and> Add (clock0 + 11000000000) (period engine0) \<le> clock0 + 311000000000
   \<and> clock0 + 311000000000 = Add (clock0 + 11000000000) (period engine0)"
proof -
  have first: "Schedule engine0 ''nodeA'' okDrainer clock0 = ((clock0 + 11000000000, None), engine1)"
    by (simp add: engine1_def engine0_Schedule_nodeA)
  have second: "Schedule engine1 ''nodeB'' okDrainer clock0
      = ((clock0 + 311000000000, None), snd (Schedule engine1 ''nodeB'' okDrainer clock0))"
    using engine1_Schedule_nodeB by (metis prod.collapse)
  have p: "\<not> Before (Add (clock0 + 11000000000) (period engine0))
                (Add clock0 (SetConditionTimeout + Second))"
    by (simp add: Before_def Add_def sint_floor engine0_def NewDrainSchedules_def sint_fiveMinutes)
  from successive_Schedule_spacing [OF first second] p
  have "Add (clock0 + 11000000000) (period engine0) \<le> clock0 + 311000000000"
    and "clock0 + 311000000000 = Add (clock0 + 11000000000) (period engine0)"
    by blast+
  with first engine1_Schedule_nodeB show ?thesis
    by simp
qed

text \<open>
  Claim C7. With a period that is not negative, \<^verbatim>\<open>lastDrainScheduledFor\<close> never moves
  backwards: not by one operation of the engine (a call of the interface or the firing of
  a timer), not by any sequence of them. The value that \<^verbatim>\<open>WhenNextSchedule\<close> computes is
  not before it either. The only operation that writes it is a call of \<^verbatim>\<open>Schedule\<close> for
  a node without an entry, which stores the value of \<^verbatim>\<open>WhenNextSchedule\<close>.
\<close>

theorem lastDrainScheduledFor_monotonic:
  assumes "0 \<le> sint (period d)"
  shows "lastDrainScheduledFor d \<le> lastDrainScheduledFor (perform op d)
    \<and> lastDrainScheduledFor d \<le> lastDrainScheduledFor (run ops d)
    \<and> lastDrainScheduledFor d \<le> WhenNextSchedule d now
    \<and> (lastDrainScheduledFor (perform op d) = lastDrainScheduledFor d
        \<or> (\<exists>n dr t. op = CallSchedule n dr t \<and> schedules d n = None
              \<and> lastDrainScheduledFor (perform op d) = WhenNextSchedule d t))"
proof -
  have "lastDrainScheduledFor (perform op d) = lastDrainScheduledFor d
        \<or> (\<exists>n dr t. op = CallSchedule n dr t \<and> schedules d n = None
              \<and> lastDrainScheduledFor (perform op d) = WhenNextSchedule d t)"
    by (cases op) (simp_all add: Schedule_last_cases)
  with perform_last [OF assms] run_last [OF assms] WhenNextSchedule_ge_last [OF assms]
  show ?thesis by blast
qed

theorem lastDrainScheduledFor_monotonic_witness:
  "lastDrainScheduledFor engine0 \<le>
     lastDrainScheduledFor (perform (CallSchedule ''nodeA'' okDrainer clock0) engine0)
   \<and> lastDrainScheduledFor engine0 \<le>
     lastDrainScheduledFor
       (run [CallSchedule ''nodeA'' okDrainer clock0, CallDeleteSchedule ''nodeA''] engine0)
   \<and> lastDrainScheduledFor engine0 = 0
   \<and> lastDrainScheduledFor (perform (CallSchedule ''nodeA'' okDrainer clock0) engine0)
       = clock0 + 11000000000"
proof -
  have p: "0 \<le> sint (period engine0)"
    by (simp add: engine0_def NewDrainSchedules_def sint_fiveMinutes)
  have z: "lastDrainScheduledFor engine0 = 0"
    by (simp add: engine0_def NewDrainSchedules_def zeroTime_def)
  have v: "lastDrainScheduledFor (perform (CallSchedule ''nodeA'' okDrainer clock0) engine0)
       = clock0 + 11000000000"
    by (simp add: engine0_Schedule_nodeA)
  from lastDrainScheduledFor_monotonic [OF p,
      of "CallSchedule ''nodeA'' okDrainer clock0"
         "[CallSchedule ''nodeA'' okDrainer clock0, CallDeleteSchedule ''nodeA'']"]
  have "lastDrainScheduledFor engine0 \<le>
          lastDrainScheduledFor (perform (CallSchedule ''nodeA'' okDrainer clock0) engine0)"
    and "lastDrainScheduledFor engine0 \<le>
     lastDrainScheduledFor
       (run [CallSchedule ''nodeA'' okDrainer clock0, CallDeleteSchedule ''nodeA''] engine0)"
    by blast+
  with z v show ?thesis by blast
qed

text \<open>
  Claim C8. \<^verbatim>\<open>HasSchedule(name)\<close> answers \<open>(False, False)\<close> and leaves the state as it is
  when the name has no entry; when it has one it answers \<open>True\<close> together with the failed
  flag of that entry. In both cases the map, the schedules, \<^verbatim>\<open>lastDrainScheduledFor\<close> and
  the period are unchanged: the call writes to the log at most.
\<close>

theorem HasSchedule_reports:
  "(schedules d name = None \<longrightarrow> HasSchedule d name = ((False, False), d))
   \<and> (\<forall>a. schedules d name = Some a \<longrightarrow>
         fst (HasSchedule d name) = (True, isFailed (heap d a)))
   \<and> schedules (snd (HasSchedule d name)) = schedules d
   \<and> heap (snd (HasSchedule d name)) = heap d
   \<and> lastDrainScheduledFor (snd (HasSchedule d name)) = lastDrainScheduledFor d
   \<and> period (snd (HasSchedule d name)) = period d
   \<and> (snd (HasSchedule d name))\<lparr>logger := logger d\<rparr> = d"
  by (simp add: HasSchedule_def writeLog_def split: option.splits)

theorem HasSchedule_reports_witness:
  "HasSchedule engine0 ''nodeA'' = ((False, False), engine0)
   \<and> fst (HasSchedule (snd (Schedule engine0 ''nodeA'' okDrainer clock0)) ''nodeA'') = (True, False)
   \<and> fst (HasSchedule
        (updateSchedule 0 setFailed (snd (Schedule engine0 ''nodeA'' okDrainer clock0))) ''nodeA'')
      = (True, True)"
proof -
  have e0: "schedules engine0 ''nodeA'' = None"
    by (simp add: engine0_def NewDrainSchedules_def)
  have e1: "schedules (snd (Schedule engine0 ''nodeA'' okDrainer clock0)) ''nodeA'' = Some 0"
    by (simp add: engine0_Schedule_nodeA)
  have e2: "schedules (updateSchedule 0 setFailed (snd (Schedule engine0 ''nodeA'' okDrainer clock0))) ''nodeA'' = Some 0"
    by (simp add: engine0_Schedule_nodeA)
  show ?thesis
    using HasSchedule_reports [of engine0 "''nodeA''"]
      HasSchedule_reports [of "snd (Schedule engine0 ''nodeA'' okDrainer clock0)" "''nodeA''"]
      HasSchedule_reports [of "updateSchedule 0 setFailed (snd (Schedule engine0 ''nodeA'' okDrainer clock0))" "''nodeA''"]
    by (simp add: e0 e1 e2) (simp add: engine0_Schedule_nodeA isFailed_def setFailed_def)
qed

text \<open>
  Claim C9. \<^verbatim>\<open>DeleteSchedule(name)\<close> on a name with an entry removes the entry and stops
  its timer, which cannot fire afterwards. A call of \<^verbatim>\<open>Schedule\<close> for the same node that
  follows computes a fresh time with \<^verbatim>\<open>WhenNextSchedule\<close> and stores it; the only error
  it can return is that of its own announcement, and when the announcement succeeds it
  returns the fresh time without error and the node has a new entry. On a name without
  an entry \<^verbatim>\<open>DeleteSchedule\<close> changes nothing but the log, where it leaves a warning.
\<close>

theorem DeleteSchedule_frees_node:
  "(\<forall>a. schedules d name = Some a \<longrightarrow>
      schedules (DeleteSchedule d name) = (schedules d)(name := None)
      \<and> state (timer (heap (DeleteSchedule d name) a)) = stopState (state (timer (heap d a)))
      \<and> state (timer (heap (DeleteSchedule d name) a)) \<noteq> Armed
      \<and> timerFires (DeleteSchedule d name) a dr' now' = DeleteSchedule d name
      \<and> lastDrainScheduledFor (snd (Schedule (DeleteSchedule d name) name dr now))
          = WhenNextSchedule d now
      \<and> snd (fst (Schedule (DeleteSchedule d name) name dr now))
          = RetryWithTimeout (MarkDrain dr name (WhenNextSchedule d now) zeroTime False)
              SetConditionRetryPeriod SetConditionTimeout
      \<and> (RetryWithTimeout (MarkDrain dr name (WhenNextSchedule d now) zeroTime False)
              SetConditionRetryPeriod SetConditionTimeout = None \<longrightarrow>
            fst (Schedule (DeleteSchedule d name) name dr now) = (WhenNextSchedule d now, None)
            \<and> schedules (snd (Schedule (DeleteSchedule d name) name dr now)) name
                = Some (nextAddr d)))
   \<and> (schedules d name = None \<longrightarrow>
        DeleteSchedule d name
          = d\<lparr>logger := logger d @ [(Warn, ''Entry not found in deletion schedule'')]\<rparr>)"
proof (intro conjI allI impI)
  assume "schedules d name = None"
  then show "DeleteSchedule d name
          = d\<lparr>logger := logger d @ [(Warn, ''Entry not found in deletion schedule'')]\<rparr>"
    by (simp add: DeleteSchedule_def writeLog_def)
next
  fix a
  assume e: "schedules d name = Some a"
  let ?d' = "DeleteSchedule d name"
  have free: "schedules ?d' name = None"
    by simp
  have w: "WhenNextSchedule ?d' now = WhenNextSchedule d now"
    by (rule WhenNextSchedule_only_reads) simp_all
  show "schedules ?d' = (schedules d)(name := None)"
    by simp
  show st: "state (timer (heap ?d' a)) = stopState (state (timer (heap d a)))"
    by (simp add: DeleteSchedule_heap [OF e] Stop_def)
  then show na: "state (timer (heap ?d' a)) \<noteq> Armed"
    by (simp add: stopState_not_Armed)
  then show "timerFires ?d' a dr' now' = ?d'"
    by (simp add: timerFires_def)
  show "lastDrainScheduledFor (snd (Schedule ?d' name dr now)) = WhenNextSchedule d now"
    using Schedule_last [OF free] by (simp only: w)
  show "snd (fst (Schedule ?d' name dr now))
          = RetryWithTimeout (MarkDrain dr name (WhenNextSchedule d now) zeroTime False)
              SetConditionRetryPeriod SetConditionTimeout"
    using Schedule_error [OF free] by (simp only: w)
  assume r: "RetryWithTimeout (MarkDrain dr name (WhenNextSchedule d now) zeroTime False)
              SetConditionRetryPeriod SetConditionTimeout = None"
  then have r': "RetryWithTimeout (MarkDrain dr name (WhenNextSchedule ?d' now) zeroTime False)
              SetConditionRetryPeriod SetConditionTimeout = None"
    by (simp only: w)
  show "fst (Schedule ?d' name dr now) = (WhenNextSchedule d now, None)"
    by (simp add: Schedule_announced [OF free r'] w)
  show "schedules (snd (Schedule ?d' name dr now)) name = Some (nextAddr d)"
    by (simp add: Schedule_announced [OF free r'])
qed

theorem DeleteSchedule_frees_node_witness:
  "schedules (DeleteSchedule engine1 ''nodeA'') ''nodeA'' = None
   \<and> state (timer (heap (DeleteSchedule engine1 ''nodeA'') 0)) = Stopped
   \<and> fst (Schedule (DeleteSchedule engine1 ''nodeA'') ''nodeA'' okDrainer (clock0 + 1000000000))
       = (clock0 + 311000000000, None)
   \<and> schedules (snd (Schedule (DeleteSchedule engine1 ''nodeA'') ''nodeA'' okDrainer
        (clock0 + 1000000000))) ''nodeA'' = Some 1
   \<and> DeleteSchedule engine0 ''nodeA''
       = engine0\<lparr>logger := logger engine0 @ [(Warn, ''Entry not found in deletion schedule'')]\<rparr>"
proof -
  let ?now = "clock0 + 1000000000"
  have e1: "schedules engine1 ''nodeA'' = Some 0"
    by (simp add: engine1_fields)
  have e0: "schedules engine0 ''nodeA'' = None"
    by (simp add: engine0_def NewDrainSchedules_def)
  have w: "WhenNextSchedule engine1 ?now = clock0 + 311000000000"
    by (simp add: WhenNextSchedule_eq engine1_fields sint_fiveMinutes)
  have r: "RetryWithTimeout (MarkDrain okDrainer ''nodeA'' (WhenNextSchedule engine1 ?now) zeroTime False)
             SetConditionRetryPeriod SetConditionTimeout = None"
    by (rule RetryWithTimeout_first) (simp add: okDrainer_def)
  note D = DeleteSchedule_frees_node [of engine1 "''nodeA''" okDrainer ?now okDrainer ?now]
  from D e1 r
  have "schedules (DeleteSchedule engine1 ''nodeA'') = (schedules engine1)(''nodeA'' := None)"
    and "state (timer (heap (DeleteSchedule engine1 ''nodeA'') 0))
          = stopState (state (timer (heap engine1 0)))"
    and "fst (Schedule (DeleteSchedule engine1 ''nodeA'') ''nodeA'' okDrainer ?now)
          = (WhenNextSchedule engine1 ?now, None)"
    and "schedules (snd (Schedule (DeleteSchedule engine1 ''nodeA'') ''nodeA'' okDrainer ?now)) ''nodeA''
          = Some (nextAddr engine1)"
    by blast+
  moreover from DeleteSchedule_frees_node [of engine0 "''nodeA''"] e0
  have "DeleteSchedule engine0 ''nodeA''
       = engine0\<lparr>logger := logger engine0 @ [(Warn, ''Entry not found in deletion schedule'')]\<rparr>"
    by blast
  ultimately show ?thesis
    by (simp add: w engine1_fields)
qed

text \<open>
  Claim C10. The three results of \<^verbatim>\<open>Schedule\<close>: the \<^verbatim>\<open>when\<close> of the existing schedule with
  the already-scheduled error; the zero time with the error of the announcement when the
  announcement fails; the computed time without error when it succeeds. So a time other
  than the zero time is returned only without error or with the already-scheduled error.
  The computed time itself is never the zero time when the clock reading is not before
  the zero time.
\<close>

theorem Schedule_returned_time:
  "(\<forall>a. schedules d n = Some a \<longrightarrow>
        fst (Schedule d n dr now) = (when' (heap d a), Some NewAlreadyScheduledError))
   \<and> (schedules d n = None \<longrightarrow>
        (\<forall>err. RetryWithTimeout (MarkDrain dr n (WhenNextSchedule d now) zeroTime False)
                 SetConditionRetryPeriod SetConditionTimeout = Some err \<longrightarrow>
               fst (Schedule d n dr now) = (zeroTime, Some err))
        \<and> (RetryWithTimeout (MarkDrain dr n (WhenNextSchedule d now) zeroTime False)
                 SetConditionRetryPeriod SetConditionTimeout = None \<longrightarrow>
               fst (Schedule d n dr now) = (WhenNextSchedule d now, None)))
   \<and> (fst (fst (Schedule d n dr now)) \<noteq> zeroTime \<longrightarrow>
        snd (fst (Schedule d n dr now)) = None
        \<or> IsAlreadyScheduledError (snd (fst (Schedule d n dr now))))
   \<and> (0 \<le> now \<longrightarrow> WhenNextSchedule d now \<noteq> zeroTime)"
proof (intro conjI allI impI)
  fix a assume "schedules d n = Some a"
  then show "fst (Schedule d n dr now) = (when' (heap d a), Some NewAlreadyScheduledError)"
    by (simp add: Schedule_existing)
next
  fix err
  assume "schedules d n = None"
    and "RetryWithTimeout (MarkDrain dr n (WhenNextSchedule d now) zeroTime False)
           SetConditionRetryPeriod SetConditionTimeout = Some err"
  then show "fst (Schedule d n dr now) = (zeroTime, Some err)"
    by (simp add: Schedule_rolled_back)
next
  assume "schedules d n = None"
    and "RetryWithTimeout (MarkDrain dr n (WhenNextSchedule d now) zeroTime False)
           SetConditionRetryPeriod SetConditionTimeout = None"
  then show "fst (Schedule d n dr now) = (WhenNextSchedule d now, None)"
    by (simp add: Schedule_announced)
next
  assume t: "fst (fst (Schedule d n dr now)) \<noteq> zeroTime"
  show "snd (fst (Schedule d n dr now)) = None
        \<or> IsAlreadyScheduledError (snd (fst (Schedule d n dr now)))"
  proof (cases "schedules d n")
    case (Some a)
    then show ?thesis
      by (simp add: Schedule_existing NewAlreadyScheduledError_def)
  next
    case None
    show ?thesis
    proof (cases "RetryWithTimeout (MarkDrain dr n (WhenNextSchedule d now) zeroTime False)
                    SetConditionRetryPeriod SetConditionTimeout")
      case (Some err)
      with None t show ?thesis by (simp add: Schedule_rolled_back)
    next
      case N: None
      with None show ?thesis by (simp add: Schedule_announced)
    qed
  qed
next
  assume "0 \<le> now"
  then show "WhenNextSchedule d now \<noteq> zeroTime"
    by (simp add: WhenNextSchedule_eq zeroTime_def max_def)
qed

theorem Schedule_returned_time_witness:
  "fst (Schedule engine0 ''nodeC'' failingDrainer clock0) = (zeroTime, Some (DrainerError ''conflict''))
   \<and> fst (Schedule engine0 ''nodeA'' okDrainer clock0) = (WhenNextSchedule engine0 clock0, None)
   \<and> fst (Schedule engine1 ''nodeA'' failingDrainer clock0)
       = (clock0 + 11000000000, Some NewAlreadyScheduledError)
   \<and> WhenNextSchedule engine0 clock0 \<noteq> zeroTime"
proof -
  have eC: "schedules engine0 ''nodeC'' = None" and eA: "schedules engine0 ''nodeA'' = None"
    by (simp_all add: engine0_def NewDrainSchedules_def)
  have e1: "schedules engine1 ''nodeA'' = Some 0"
    by (simp add: engine1_fields)
  have rC: "RetryWithTimeout (MarkDrain failingDrainer ''nodeC'' (WhenNextSchedule engine0 clock0) zeroTime False)
             SetConditionRetryPeriod SetConditionTimeout = Some (DrainerError ''conflict'')"
    by (rule RetryWithTimeout_all_fail) (simp add: failingDrainer_def)
  have rA: "RetryWithTimeout (MarkDrain okDrainer ''nodeA'' (WhenNextSchedule engine0 clock0) zeroTime False)
             SetConditionRetryPeriod SetConditionTimeout = None"
    by (rule RetryWithTimeout_first) (simp add: okDrainer_def)
  have c: "0 \<le> clock0"
    by (simp add: clock0_def)
  from Schedule_returned_time [of engine0 "''nodeC''" failingDrainer clock0] eC rC
  have 1: "fst (Schedule engine0 ''nodeC'' failingDrainer clock0) = (zeroTime, Some (DrainerError ''conflict''))"
    by blast
  from Schedule_returned_time [of engine0 "''nodeA''" okDrainer clock0] eA rA c
  have 2: "fst (Schedule engine0 ''nodeA'' okDrainer clock0) = (WhenNextSchedule engine0 clock0, None)"
    and 4: "WhenNextSchedule engine0 clock0 \<noteq> zeroTime"
    by blast+
  from Schedule_returned_time [of engine1 "''nodeA''" failingDrainer clock0] e1
  have "fst (Schedule engine1 ''nodeA'' failingDrainer clock0)
       = (when' (heap engine1 0), Some NewAlreadyScheduledError)"
    by blast
  then have 3: "fst (Schedule engine1 ''nodeA'' failingDrainer clock0)
       = (clock0 + 11000000000, Some NewAlreadyScheduledError)"
    by (simp add: engine1_fields)
  from 1 2 3 4 show ?thesis by blast
qed

end
